theory Spec2Isabelle
  imports Main "HOL-Library.AList"
begin

section \<open>The experiment wizard of chaostoolkit (cli.py)\<close>

text \<open>
  The theory embeds the two functions of \<^verbatim>\<open>chaostoolkit/cli.py\<close> that build an
  experiment interactively: \<^verbatim>\<open>add_activities\<close> (lines 211-300) and \<^verbatim>\<open>init\<close>
  (lines 147-204).  Both talk to the operator through the prompt library
  \<^verbatim>\<open>click\<close>.  The operator is a list of input lines, still to be read; every prompt
  consumes lines from its front and the functions return what is left.  What is
  printed (menus, questions, documentation strings) changes no result and is left out.
\<close>

subsection \<open>Values and documents\<close>

text \<open>Scalar JSON values, as \<^verbatim>\<open>json.loads\<close> yields them and as prompts return them.\<close>

datatype pyval = PNone | PBool bool | PInt int | PStr string

text \<open>
  One entry of an activity's \<^verbatim>\<open>"arguments"\<close> list in the discovery document.
  \<open>arg_default = None\<close>: the entry has no \<^verbatim>\<open>"default"\<close> key;
  \<open>arg_default = Some PNone\<close>: the key is there and holds \<^verbatim>\<open>null\<close>.
\<close>

record argument =
  arg_name :: string
  arg_default :: "pyval option"

text \<open>
  One entry of the discovery's \<^verbatim>\<open>"activities"\<close> list.  The keys \<^verbatim>\<open>"name"\<close>,
  \<^verbatim>\<open>"type"\<close> and \<^verbatim>\<open>"mod"\<close> are read with \<^verbatim>\<open>[...]\<close>; \<^verbatim>\<open>"doc"\<close> is read with
  \<^verbatim>\<open>.get\<close> and only printed; \<^verbatim>\<open>"arguments"\<close> is read with \<^verbatim>\<open>.get(..., [])\<close>,
  so a missing key is the empty list.
\<close>

record discovered =
  act_name :: string
  act_type :: string
  act_mod :: string
  act_doc :: "string option"
  act_arguments :: "argument list"

record discovery =
  d_activities :: "discovered list"

text \<open>The pairs \<^verbatim>\<open>(a["name"], a)\<close> the menu is built from.\<close>

type_synonym candidate = "string \<times> discovered"

text \<open>
  The activity \<^verbatim>\<open>add_activities\<close> appends to the pool.  \<open>tolerance = None\<close>: the
  dictionary has no \<^verbatim>\<open>"tolerance"\<close> key.  \<open>p_arguments\<close> is the dictionary
  \<^verbatim>\<open>activity["provider"]["arguments"]\<close> in insertion order.
\<close>

record provider =
  p_type :: string
  p_module :: string
  p_func :: string
  p_arguments :: "(string \<times> pyval) list"

record activity =
  a_name :: string
  a_type :: string
  tolerance :: "string option"
  a_provider :: provider

text \<open>
  The exceptions that leave the two functions: \<open>Abort\<close> is raised by a prompt when the
  input ends, \<open>IndexError\<close> by \<^verbatim>\<open>activities[activity_index - 1]\<close>.
\<close>

datatype error = Abort | IndexError

subsection \<open>The prompt library\<close>

text \<open>
  \<^verbatim>\<open>click\<close> is not part of the repository.  How it reads one line as a value is a
  parameter of the model:
  \<^item> \<open>read_int\<close>: the conversion of \<^verbatim>\<open>type=int\<close>, \<open>None\<close> where the line is no integer;
  \<^item> \<open>read_yes_no\<close>: the answer \<^verbatim>\<open>click.confirm\<close> takes from a line (the empty line
    standing for its default answer), \<open>None\<close> where the line is no answer;
  \<^item> \<open>read_as d\<close>: the conversion \<^verbatim>\<open>click.prompt\<close> derives from the type of the
    default \<open>d\<close>, \<open>None\<close> where the line does not convert.
  A prompt asks again after a line it refuses, and raises \<open>Abort\<close> (here: returns
  \<open>None\<close>) when there is no line left.
\<close>

record console =
  read_int :: "string \<Rightarrow> int option"
  read_yes_no :: "string \<Rightarrow> bool option"
  read_as :: "pyval \<Rightarrow> string \<Rightarrow> pyval option"

text \<open>\<^verbatim>\<open>click.prompt(..., type=int)\<close>, no default: an empty line is asked again.\<close>

fun prompt_int :: "console \<Rightarrow> string list \<Rightarrow> (int \<times> string list) option" where
  "prompt_int con [] = None"
| "prompt_int con (l # ls) =
     (if l = [] then prompt_int con ls
      else case read_int con l of
             Some n \<Rightarrow> Some (n, ls)
           | None \<Rightarrow> prompt_int con ls)"

text \<open>\<^verbatim>\<open>click.confirm(...)\<close>.\<close>

fun confirm :: "console \<Rightarrow> string list \<Rightarrow> (bool \<times> string list) option" where
  "confirm con [] = None"
| "confirm con (l # ls) =
     (case read_yes_no con l of
        Some b \<Rightarrow> Some (b, ls)
      | None \<Rightarrow> confirm con ls)"

text \<open>
  \<^verbatim>\<open>click.prompt(...)\<close> with \<^verbatim>\<open>type=str\<close> or no type, and no default: the first
  line that is not empty, as it is.
\<close>

fun prompt_str :: "string list \<Rightarrow> (string \<times> string list) option" where
  "prompt_str [] = None"
| "prompt_str (l # ls) = (if l = [] then prompt_str ls else Some (l, ls))"

text \<open>
  \<^verbatim>\<open>click.prompt(..., default=d)\<close> with \<open>d\<close> not \<^verbatim>\<open>None\<close>: the empty line yields
  the default itself, any other line is converted.
\<close>

fun prompt_default :: "console \<Rightarrow> pyval \<Rightarrow> string list \<Rightarrow> (pyval \<times> string list) option" where
  "prompt_default con d [] = None"
| "prompt_default con d (l # ls) =
     (if l = [] then Some (d, ls)
      else case read_as con d l of
             Some v \<Rightarrow> Some (v, ls)
           | None \<Rightarrow> prompt_default con d ls)"

text \<open>
  \<^verbatim>\<open>click.prompt(m, default=arg_default, show_default=True)\<close> of line 284, where
  \<^verbatim>\<open>arg_default\<close> may be \<^verbatim>\<open>None\<close>.
\<close>

definition prompt_value :: "console \<Rightarrow> pyval option \<Rightarrow> string list \<Rightarrow> (pyval \<times> string list) option" where
  "prompt_value con dflt inp =
     (case dflt of
        None \<Rightarrow> (case prompt_str inp of None \<Rightarrow> None | Some (l, rest) \<Rightarrow> Some (PStr l, rest))
      | Some d \<Rightarrow> prompt_default con d inp)"

subsection \<open>Python list indexing\<close>

text \<open>\<^verbatim>\<open>xs[i]\<close>: a negative index counts from the end; out of range raises.\<close>

definition py_index :: "'a list \<Rightarrow> int \<Rightarrow> 'a option" where
  "py_index xs i =
     (let n = int (length xs) in
      if 0 \<le> i \<and> i < n then Some (xs ! nat i)
      else if - n \<le> i \<and> i < 0 then Some (xs ! nat (n + i))
      else None)"

subsection \<open>add_activities\<close>

text \<open>
  Lines 238-243: the menu prompt.  \<open>Inr (None, rest)\<close>: the answer was falsy and the
  function returns; \<open>Inr (Some selected, rest)\<close>: \<^verbatim>\<open>selected\<close> is bound.
\<close>

definition select_activity ::
  "console \<Rightarrow> candidate list \<Rightarrow> string list \<Rightarrow> error + (discovered option \<times> string list)" where
  "select_activity con activities inp =
     (case prompt_int con inp of
        None \<Rightarrow> Inl Abort
      | Some (activity_index, rest) \<Rightarrow>
          if activity_index = 0 then Inr (None, rest)
          else (case py_index activities (activity_index - 1) of
                  None \<Rightarrow> Inl IndexError
                | Some c \<Rightarrow> Inr (Some (snd c), rest)))"

text \<open>
  Lines 276-292: the value asked for one argument.  The default shown for a declared
  \<^verbatim>\<open>None\<close> is the empty string, and an answer equal to the empty string is turned
  back into \<^verbatim>\<open>None\<close>.
\<close>

definition ask_argument :: "console \<Rightarrow> argument \<Rightarrow> string list \<Rightarrow> (pyval \<times> string list) option" where
  "ask_argument con arg inp =
     (let shown = (case arg_default arg of
                     None \<Rightarrow> None
                   | Some d \<Rightarrow> if d = PNone then Some (PStr []) else Some d)
      in case prompt_value con shown inp of
           None \<Rightarrow> None
         | Some (arg_value, rest) \<Rightarrow>
             (case arg_default arg of
                None \<Rightarrow> Some (arg_value, rest)
              | Some d \<Rightarrow>
                  if d = PNone \<and> arg_value = PStr [] then Some (PNone, rest)
                  else Some (arg_value, rest)))"

text \<open>
  Lines 267-294: the loop over \<^verbatim>\<open>selected.get("arguments", [])\<close>; \<open>args\<close> is the
  dictionary \<^verbatim>\<open>activity["provider"]["arguments"]\<close> built so far.
\<close>

fun ask_arguments ::
  "console \<Rightarrow> argument list \<Rightarrow> (string \<times> pyval) list \<Rightarrow> string list \<Rightarrow>
     error + ((string \<times> pyval) list \<times> string list)" where
  "ask_arguments con [] args inp = Inr (args, inp)"
| "ask_arguments con (arg # others) args inp =
     (if arg_name arg = ''secrets'' \<or> arg_name arg = ''configuration''
      then ask_arguments con others args inp
      else case ask_argument con arg inp of
             None \<Rightarrow> Inl Abort
           | Some (arg_value, rest) \<Rightarrow>
               ask_arguments con others (AList.update (arg_name arg) arg_value args) rest)"

text \<open>Lines 256-294: the activity built from \<^verbatim>\<open>selected\<close>.\<close>

definition build_activity ::
  "console \<Rightarrow> discovered \<Rightarrow> bool \<Rightarrow> string list \<Rightarrow> error + (activity \<times> string list)" where
  "build_activity con selected with_tolerance inp =
     (case (if with_tolerance
            then (case prompt_str inp of
                    None \<Rightarrow> None
                  | Some (tolerance_value, rest) \<Rightarrow> Some (Some tolerance_value, rest))
            else Some (None, inp)) of
        None \<Rightarrow> Inl Abort
      | Some (tol, inp1) \<Rightarrow>
          (case ask_arguments con (act_arguments selected) [] inp1 of
             Inl e \<Rightarrow> Inl e
           | Inr (args, inp2) \<Rightarrow>
               Inr (\<lparr>a_name = act_name selected,
                     a_type = act_type selected,
                     tolerance = tol,
                     a_provider = \<lparr>p_type = ''python'',
                                   p_module = act_mod selected,
                                   p_func = act_name selected,
                                   p_arguments = args\<rparr>\<rparr>, inp2)))"

text \<open>
  Where control is after lines 248-254: the function has returned (line 253), or it
  goes on to line 256.
\<close>

datatype 'a flow = Return 'a | Next 'a

text \<open>
  \<^verbatim>\<open>add_activities(activities, pool, with_tolerance)\<close>.  The pool is the list the caller
  passed, changed in place; the model returns it with the input that is left.  Both
  recursive calls (lines 254 and 300) pass no \<^verbatim>\<open>with_tolerance\<close>, which is then
  \<^verbatim>\<open>False\<close>; after the call of line 254 returns, control falls through to line 256.
\<close>

function add_activities ::
  "console \<Rightarrow> candidate list \<Rightarrow> activity list \<Rightarrow> bool \<Rightarrow> string list \<Rightarrow>
     error + (activity list \<times> string list)" where
  "add_activities con activities pool with_tolerance inp =
     (case select_activity con activities inp of
        Inl e \<Rightarrow> Inl e
      | Inr (None, inp1) \<Rightarrow> Inr (pool, inp1)
      | Inr (Some selected, inp1) \<Rightarrow>
          (case confirm con inp1 of
             None \<Rightarrow> Inl Abort
           | Some (use, inp2) \<Rightarrow>
               (case (if use then Inr (Next (pool, inp2))
                      else (case confirm con inp2 of
                              None \<Rightarrow> Inl Abort
                            | Some (another, inp3) \<Rightarrow>
                                if \<not> another then Inr (Return (pool, inp3))
                                else (case add_activities con activities pool False inp3 of
                                        Inl e \<Rightarrow> Inl e
                                      | Inr r \<Rightarrow> Inr (Next r)))) of
                  Inl e \<Rightarrow> Inl e
                | Inr (Return r) \<Rightarrow> Inr r
                | Inr (Next (pool1, inp4)) \<Rightarrow>
                    (case build_activity con selected with_tolerance inp4 of
                       Inl e \<Rightarrow> Inl e
                     | Inr (activity, inp5) \<Rightarrow>
                         (case confirm con inp5 of
                            None \<Rightarrow> Inl Abort
                          | Some (another, inp6) \<Rightarrow>
                              if \<not> another then Inr (pool1 @ [activity], inp6)
                              else add_activities con activities (pool1 @ [activity]) False inp6)))))"
  by pat_completeness auto

subsection \<open>init\<close>

text \<open>
  The experiment \<^verbatim>\<open>init\<close> returns.  \<open>e_method = None\<close>: the dictionary has no
  \<^verbatim>\<open>"method"\<close> key; \<open>steady_state_hypothesis = None\<close>: it has no
  \<^verbatim>\<open>"steady-state-hypothesis"\<close> key; \<open>h_probes = None\<close>: the hypothesis has no
  \<^verbatim>\<open>"probes"\<close> key.
\<close>

record hypothesis =
  h_title :: string
  h_probes :: "activity list option"

record experiment_doc =
  e_version :: string
  e_title :: string
  e_description :: string
  e_tags :: "string list"
  e_rollbacks :: "activity list"
  steady_state_hypothesis :: "hypothesis option"
  e_method :: "activity list option"

text \<open>Lines 185-188: the loop that collects the probes, appending to \<open>acc\<close>.\<close>

fun collect_probes :: "discovered list \<Rightarrow> candidate list \<Rightarrow> candidate list" where
  "collect_probes [] acc = acc"
| "collect_probes (a # rest) acc =
     collect_probes rest (if act_type a = ''probe'' then acc @ [(act_name a, a)] else acc)"

definition probe_candidates :: "discovery \<Rightarrow> candidate list" where
  "probe_candidates d = collect_probes (d_activities d) []"

text \<open>Line 195: the candidates for the method.\<close>

definition method_candidates :: "discovery \<Rightarrow> candidate list" where
  "method_candidates d = map (\<lambda>a. (act_name a, a)) (d_activities d)"

text \<open>
  \<^verbatim>\<open>init\<close>, from the discovery it has loaded (\<open>None\<close>: there is no file at
  \<^verbatim>\<open>discovery_path\<close>) to the experiment it returns and writes.  A loaded discovery is a
  dictionary with the key \<^verbatim>\<open>"activities"\<close>, hence truthy in lines 183 and 193.
\<close>

definition init :: "console \<Rightarrow> discovery option \<Rightarrow> string list \<Rightarrow> error + (experiment_doc \<times> string list)" where
  "init con disc inp =
     (case prompt_str inp of
        None \<Rightarrow> Inl Abort
      | Some (title, inp1) \<Rightarrow>
          (case confirm con inp1 of
             None \<Rightarrow> Inl Abort
           | Some (define_hypo, inp2) \<Rightarrow>
               (case (if define_hypo
                      then (case prompt_str inp2 of
                              None \<Rightarrow> Inl Abort
                            | Some (hypo_title, inp3) \<Rightarrow>
                                (case disc of
                                   None \<Rightarrow>
                                     Inr (Some \<lparr>h_title = hypo_title, h_probes = None\<rparr>, inp3)
                                 | Some d \<Rightarrow>
                                     (case add_activities con (probe_candidates d) [] True inp3 of
                                        Inl e \<Rightarrow> Inl e
                                      | Inr (probes, inp4) \<Rightarrow>
                                          Inr (Some \<lparr>h_title = hypo_title,
                                                     h_probes = Some probes\<rparr>, inp4))))
                      else Inr (None, inp2)) of
                  Inl e \<Rightarrow> Inl e
                | Inr (hypo, inp5) \<Rightarrow>
                    (case (case disc of
                             None \<Rightarrow> Inr (None, inp5)
                           | Some d \<Rightarrow>
                               (case add_activities con (method_candidates d) [] False inp5 of
                                  Inl e \<Rightarrow> Inl e
                                | Inr (method, inp6) \<Rightarrow> Inr (Some method, inp6))) of
                       Inl e \<Rightarrow> Inl e
                     | Inr (method, inp7) \<Rightarrow>
                         Inr (\<lparr>e_version = ''1.0.0'',
                               e_title = title,
                               e_description = ''N/A'',
                               e_tags = [],
                               e_rollbacks = [],
                               steady_state_hypothesis = hypo,
                               e_method = method\<rparr>, inp7)))))"

text \<open>The entries of the method and of the hypothesis, a missing key having none.\<close>

definition method_entries :: "experiment_doc \<Rightarrow> activity list" where
  "method_entries e = (case e_method e of None \<Rightarrow> [] | Some m \<Rightarrow> m)"

definition observations :: "experiment_doc \<Rightarrow> activity list" where
  "observations e =
     (case steady_state_hypothesis e of
        None \<Rightarrow> []
      | Some h \<Rightarrow> (case h_probes h of None \<Rightarrow> [] | Some ps \<Rightarrow> ps))"

text \<open>The names of the arguments an activity was given.\<close>

definition argument_names :: "activity \<Rightarrow> string set" where
  "argument_names a = fst ` set (p_arguments (a_provider a))"

subsection \<open>A console for the examples\<close>

text \<open>
  Integers are read in decimal with an optional minus sign, answers are \<^verbatim>\<open>y\<close>,
  \<^verbatim>\<open>yes\<close>, \<^verbatim>\<open>n\<close>, \<^verbatim>\<open>no\<close> and the empty line (no); a line typed against an
  integer default is read as an integer, any other line is kept as a string.
\<close>

definition digit :: "char \<Rightarrow> nat option" where
  "digit c = map_of [(CHR ''0'', 0), (CHR ''1'', 1), (CHR ''2'', 2), (CHR ''3'', 3),
     (CHR ''4'', 4), (CHR ''5'', 5), (CHR ''6'', 6), (CHR ''7'', 7), (CHR ''8'', 8),
     (CHR ''9'', 9)] c"

fun decimal :: "string \<Rightarrow> nat \<Rightarrow> nat option" where
  "decimal [] acc = Some acc"
| "decimal (c # cs) acc =
     (case digit c of None \<Rightarrow> None | Some d \<Rightarrow> decimal cs (10 * acc + d))"

definition plain_int :: "string \<Rightarrow> int option" where
  "plain_int s =
     (case s of
        [] \<Rightarrow> None
      | c # cs \<Rightarrow>
          if c = CHR ''-''
          then (if cs = [] then None else map_option (\<lambda>n. - int n) (decimal cs 0))
          else map_option int (decimal s 0))"

definition plain_yes_no :: "string \<Rightarrow> bool option" where
  "plain_yes_no s =
     (if s = ''y'' \<or> s = ''yes'' then Some True
      else if s = ''n'' \<or> s = ''no'' \<or> s = [] then Some False
      else None)"

definition plain_as :: "pyval \<Rightarrow> string \<Rightarrow> pyval option" where
  "plain_as d s = (case d of PInt _ \<Rightarrow> map_option PInt (plain_int s) | _ \<Rightarrow> Some (PStr s))"

definition plain :: console where
  "plain = \<lparr>read_int = plain_int, read_yes_no = plain_yes_no, read_as = plain_as\<rparr>"

text \<open>Discovered activities for the examples.\<close>

definition probe_one :: discovered where
  "probe_one = \<lparr>act_name = ''probe-one'', act_type = ''probe'', act_mod = ''ext.probes'',
     act_doc = None, act_arguments = []\<rparr>"

definition stop_node :: discovered where
  "stop_node = \<lparr>act_name = ''stop-node'', act_type = ''action'', act_mod = ''ext.actions'',
     act_doc = Some ''Stop a node.'',
     act_arguments = [\<lparr>arg_name = ''timeout'', arg_default = Some (PInt 30)\<rparr>,
                      \<lparr>arg_name = ''label'', arg_default = Some PNone\<rparr>,
                      \<lparr>arg_name = ''secrets'', arg_default = Some PNone\<rparr>,
                      \<lparr>arg_name = ''configuration'', arg_default = None\<rparr>]\<rparr>"

text \<open>What \<^verbatim>\<open>add_activities\<close> builds from them.\<close>

definition built :: "discovered \<Rightarrow> string option \<Rightarrow> (string \<times> pyval) list \<Rightarrow> activity" where
  "built selected tol args =
     \<lparr>a_name = act_name selected, a_type = act_type selected, tolerance = tol,
      a_provider = \<lparr>p_type = ''python'', p_module = act_mod selected,
                    p_func = act_name selected, p_arguments = args\<rparr>\<rparr>"

section \<open>Termination of add_activities\<close>

text \<open>Every prompt that returns has consumed a line.\<close>

lemma prompt_int_shorter: "prompt_int con inp = Some (n, rest) \<Longrightarrow> length rest < length inp"
  by (induction inp) (auto split: if_splits option.splits)

lemma confirm_shorter: "confirm con inp = Some (b, rest) \<Longrightarrow> length rest < length inp"
  by (induction inp) (auto split: option.splits)

lemma prompt_str_shorter: "prompt_str inp = Some (l, rest) \<Longrightarrow> length rest < length inp"
  by (induction inp) (auto split: if_splits)

lemma prompt_default_shorter:
  "prompt_default con d inp = Some (v, rest) \<Longrightarrow> length rest < length inp"
  by (induction inp) (auto split: if_splits option.splits)

lemma prompt_value_shorter:
  "prompt_value con dflt inp = Some (v, rest) \<Longrightarrow> length rest < length inp"
  by (auto simp: prompt_value_def split: option.splits
      dest: prompt_str_shorter prompt_default_shorter)

lemma select_activity_shorter:
  "select_activity con acts inp = Inr (sel, rest) \<Longrightarrow> length rest < length inp"
  by (auto simp: select_activity_def split: option.splits if_splits dest: prompt_int_shorter)

lemma ask_argument_shorter:
  "ask_argument con arg inp = Some (v, rest) \<Longrightarrow> length rest < length inp"
  by (auto simp: ask_argument_def Let_def split: option.splits if_splits
      dest: prompt_value_shorter)

lemma ask_arguments_shorter:
  "ask_arguments con args acc inp = Inr (res, rest) \<Longrightarrow> length rest \<le> length inp"
proof (induction args arbitrary: acc inp)
  case Nil
  then show ?case by simp
next
  case (Cons arg others)
  then show ?case
    by (fastforce split: if_splits option.splits dest: ask_argument_shorter)
qed

lemma build_activity_shorter:
  "build_activity con sel wt inp = Inr (a, rest) \<Longrightarrow> length rest \<le> length inp"
  by (fastforce simp: build_activity_def split: option.splits if_splits sum.splits
      dest: ask_arguments_shorter prompt_str_shorter)

text \<open>
  What a run that returns has done: it stopped at the menu, or the operator declined
  twice, or it went through lines 256-300.  Stated for arguments in the domain, this
  yields termination; it holds for all arguments afterwards.
\<close>

lemma add_activities_pcases [consumes 2, case_names escape declined added]:
  assumes dom: "add_activities_dom (con, acts, pool, wt, inp)"
    and res: "add_activities con acts pool wt inp = Inr (pool', rest)"
  obtains
    (escape) "select_activity con acts inp = Inr (None, rest)" "pool' = pool"
  | (declined) sel i1 i2 where
      "select_activity con acts inp = Inr (Some sel, i1)"
      "confirm con i1 = Some (False, i2)"
      "confirm con i2 = Some (False, rest)" "pool' = pool"
  | (added) sel i1 use i2 p1 i4 a i5 another i6 where
      "select_activity con acts inp = Inr (Some sel, i1)"
      "confirm con i1 = Some (use, i2)"
      "if use then p1 = pool \<and> i4 = i2
       else \<exists>i3. confirm con i2 = Some (True, i3) \<and>
              add_activities con acts pool False i3 = Inr (p1, i4)"
      "build_activity con sel wt i4 = Inr (a, i5)"
      "confirm con i5 = Some (another, i6)"
      "if another then add_activities con acts (p1 @ [a]) False i6 = Inr (pool', rest)
       else pool' = p1 @ [a] \<and> rest = i6"
proof -
  note unf = add_activities.psimps[OF dom]
  show thesis
  proof (cases "select_activity con acts inp")
    case (Inl e)
    with res show ?thesis by (simp add: unf)
  next
    case (Inr b)
    obtain x i1 where b: "b = (x, i1)" by (cases b)
    show ?thesis
    proof (cases x)
      case None
      with res Inr b show ?thesis by (simp add: unf escape)
    next
      case (Some sel)
      note sel = Inr[unfolded b Some]
      show ?thesis
      proof (cases "confirm con i1")
        case None
        with res sel show ?thesis by (simp add: unf)
      next
        case c1: (Some c)
        obtain use i2 where c: "c = (use, i2)" by (cases c)
        note c1 = c1[unfolded c]
        have tail: thesis
          if mid: "if use then p1 = pool \<and> i4 = i2
             else \<exists>i3. confirm con i2 = Some (True, i3) \<and>
                    add_activities con acts pool False i3 = Inr (p1, i4)"
            and t: "(case build_activity con sel wt i4 of
               Inl e \<Rightarrow> Inl e
             | Inr (activity, inp5) \<Rightarrow>
                 (case confirm con inp5 of
                    None \<Rightarrow> Inl Abort
                  | Some (another, inp6) \<Rightarrow>
                      if \<not> another then Inr (p1 @ [activity], inp6)
                      else add_activities con acts (p1 @ [activity]) False inp6)) = Inr (pool', rest)"
          for p1 i4
        proof (cases "build_activity con sel wt i4")
          case (Inl e)
          with t show ?thesis by simp
        next
          case bld: (Inr r)
          obtain a i5 where r: "r = (a, i5)" by (cases r)
          note bld = bld[unfolded r]
          show ?thesis
          proof (cases "confirm con i5")
            case None
            with t bld show ?thesis by simp
          next
            case c5: (Some d)
            obtain another i6 where d: "d = (another, i6)" by (cases d)
            note c5 = c5[unfolded d]
            from t bld c5
            have "if another then add_activities con acts (p1 @ [a]) False i6 = Inr (pool', rest)
                  else pool' = p1 @ [a] \<and> rest = i6"
              by (cases another) auto
            with sel c1 mid bld c5 show ?thesis by (rule added)
          qed
        qed
        show ?thesis
        proof (cases use)
          case True
          with res sel c1 show ?thesis
            by (intro tail[of pool i2]) (simp_all add: unf)
        next
          case False
          show ?thesis
          proof (cases "confirm con i2")
            case None
            with res sel c1 False show ?thesis by (simp add: unf)
          next
            case c2: (Some e)
            obtain again i3 where e: "e = (again, i3)" by (cases e)
            note c2 = c2[unfolded e]
            show ?thesis
            proof (cases again)
              case again: False
              with res sel c1 c2 False have "pool' = pool" "rest = i3"
                by (simp_all add: unf)
              with sel c1 c2 False again show ?thesis by (auto intro: declined)
            next
              case again: True
              show ?thesis
              proof (cases "add_activities con acts pool False i3")
                case (Inl e)
                with res sel c1 c2 False again show ?thesis by (simp add: unf)
              next
                case inner: (Inr q)
                obtain p1 i4 where q: "q = (p1, i4)" by (cases q)
                note inner = inner[unfolded q]
                from res sel c1 c2 False again inner show ?thesis
                  by (intro tail[of p1 i4]) (simp_all add: unf)
              qed
            qed
          qed
        qed
      qed
    qed
  qed
qed

lemma add_activities_dom_shorter:
  assumes "add_activities_dom (con, acts, pool, wt, inp)"
    and "add_activities con acts pool wt inp = Inr (pool', rest)"
  shows "length rest < length inp"
  using assms
proof (induction con acts pool wt inp arbitrary: pool' rest rule: add_activities.pinduct)
  case (1 con activities pool with_tolerance inp)
  from "1.hyps" "1.prems" show ?case
  proof (cases rule: add_activities_pcases)
    case escape
    then show ?thesis by (auto dest: select_activity_shorter)
  next
    case (declined sel i1 i2)
    then show ?thesis
      by (auto dest!: select_activity_shorter confirm_shorter)
  next
    case (added sel i1 use i2 p1 i4 a i5 another i6)
    have l1: "length i1 < length inp" and l2: "length i2 < length i1"
      and l5: "length i5 \<le> length i4" and l6: "length i6 < length i5"
      using added(1,2,4,5)
      by (auto dest: select_activity_shorter confirm_shorter build_activity_shorter)
    have l4: "length i4 \<le> length i2"
    proof (cases use)
      case True
      with added(3) show ?thesis by simp
    next
      case False
      with added(3) obtain i3 where c2: "confirm con i2 = Some (True, i3)"
        and inner: "add_activities con activities pool False i3 = Inr (p1, i4)" by auto
      from added(2) False have c1: "confirm con i1 = Some (False, i2)" by simp
      from "1.IH"(1)[OF added(1) refl refl c1 refl _ c2 refl _ inner]
      have "length i4 < length i3" by simp
      with confirm_shorter[OF c2] show ?thesis by simp
    qed
    show ?thesis
    proof (cases another)
      case False
      with added(6) l1 l2 l4 l5 l6 show ?thesis by simp
    next
      case True
      with added(6) have last: "add_activities con activities (p1 @ [a]) False i6 = Inr (pool', rest)"
        by simp
      have m: "(if use then Inr (Next (pool, i2))
          else case confirm con i2 of None \<Rightarrow> Inl Abort
               | Some (another, inp3) \<Rightarrow>
                   if \<not> another then Inr (Return (pool, inp3))
                   else case add_activities con activities pool False inp3 of
                        Inl x \<Rightarrow> Inl x | Inr r \<Rightarrow> Inr (Next r)) = Inr (Next (p1, i4))"
        using added(3) by (cases use) auto
      from "1.IH"(2)[OF added(1) refl refl added(2) refl m refl refl added(4) refl added(5) refl _ last] True
      have "length rest < length i6" by simp
      with l1 l2 l4 l5 l6 show ?thesis by simp
    qed
  qed
qed

text \<open>
  The input left by a run is shorter than the input it started with, so both recursive
  calls are on shorter inputs.
\<close>

lemma add_activities_total: "All add_activities_dom"
  apply (relation "measure (\<lambda>(con, acts, pool, wt, inp). length inp)")
    apply simp
   apply (auto dest!: select_activity_shorter confirm_shorter)[1]
  apply (clarsimp split: if_splits option.splits sum.splits prod.splits)
  subgoal by (auto dest!: select_activity_shorter confirm_shorter build_activity_shorter)
  subgoal for con activities pool with_tolerance inp b x2 ba xa ab bb ac bc bd xd x1 x2d
    using add_activities_dom_shorter[of con activities pool False x2d ab bb]
    by (auto dest!: select_activity_shorter confirm_shorter build_activity_shorter)
  done

termination add_activities
  by (rule add_activities_total)

declare add_activities.simps [simp del]

lemmas add_activities_cases [consumes 1, case_names escape declined added] =
  add_activities_pcases [OF add_activities_total [THEN spec]]

lemma add_activities_shorter:
  "add_activities con acts pool wt inp = Inr (pool', rest) \<Longrightarrow> length rest < length inp"
  by (rule add_activities_dom_shorter [OF add_activities_total [THEN spec]])

section \<open>Facts about the parts\<close>

lemmas console_simps = plain_def plain_int_def plain_yes_no_def plain_as_def digit_def

lemmas run_simps = add_activities.simps select_activity_def py_index_def build_activity_def
  ask_argument_def prompt_value_def built_def probe_one_def stop_node_def

lemma collect_probes_filter:
  "collect_probes xs acc =
     acc @ map (\<lambda>a. (act_name a, a)) (filter (\<lambda>a. act_type a = ''probe'') xs)"
  by (induction xs arbitrary: acc) simp_all

lemma select_activity_empty:
  "select_activity con [] inp \<noteq> Inr (Some sel, rest)"
  by (simp add: select_activity_def py_index_def split: option.splits)

lemma add_activities_empty:
  assumes "add_activities con [] pool wt inp = Inr (pool', rest)"
  shows "pool' = pool"
  using assms
proof (cases rule: add_activities_cases)
  case escape
  then show ?thesis by simp
next
  case (declined sel i1 i2)
  then show ?thesis by simp
next
  case (added sel i1 use i2 p1 i4 a i5 another i6)
  then show ?thesis by (simp add: select_activity_empty)
qed

lemma ask_arguments_names:
  "ask_arguments con args acc inp = Inr (res, rest) \<Longrightarrow>
   fst ` set res \<subseteq> fst ` set acc \<union> (arg_name ` set args - {''secrets'', ''configuration''})"
proof (induction args arbitrary: acc inp)
  case Nil
  then show ?case by simp
next
  case (Cons arg others)
  show ?case
  proof (cases "arg_name arg = ''secrets'' \<or> arg_name arg = ''configuration''")
    case True
    with Cons.prems have "ask_arguments con others acc inp = Inr (res, rest)" by auto
    from Cons.IH[OF this] show ?thesis by auto
  next
    case False
    with Cons.prems obtain v i where
      "ask_arguments con others (AList.update (arg_name arg) v acc) i = Inr (res, rest)"
      by (auto split: option.splits)
    from Cons.IH[OF this] False show ?thesis
      by (auto simp: dom_update)
  qed
qed

lemma build_activity_names:
  assumes "build_activity con sel wt inp = Inr (a, rest)"
  shows "''secrets'' \<notin> argument_names a \<and> ''configuration'' \<notin> argument_names a"
proof -
  from assms obtain tol i args where
    args: "ask_arguments con (act_arguments sel) [] i = Inr (args, rest)"
    and a: "p_arguments (a_provider a) = args"
    by (auto simp: build_activity_def split: option.splits sum.splits if_splits)
  from ask_arguments_names[OF args] a show ?thesis
    by (auto simp: argument_names_def)
qed

lemma build_activity_tolerance:
  assumes "build_activity con sel wt inp = Inr (a, rest)"
  shows "tolerance a \<noteq> None \<longleftrightarrow> wt"
  using assms
  by (auto simp: build_activity_def split: option.splits sum.splits if_splits)

text \<open>The pool only grows, and every entry added was built by lines 256-294.\<close>

lemma add_activities_appends:
  "add_activities con acts pool wt inp = Inr (pool', rest) \<Longrightarrow>
   \<exists>new. pool' = pool @ new \<and>
     (\<forall>a \<in> set new. \<exists>sel w i r. build_activity con sel w i = Inr (a, r))"
proof (induction "length inp" arbitrary: pool wt inp pool' rest rule: less_induct)
  case less
  from less.prems show ?case
  proof (cases rule: add_activities_cases)
    case escape
    then show ?thesis by simp
  next
    case (declined sel i1 i2)
    then show ?thesis by simp
  next
    case (added sel i1 use i2 p1 i4 a i5 another i6)
    have l2: "length i2 < length inp"
      using added(1,2) by (auto dest!: select_activity_shorter confirm_shorter)
    have "\<exists>new1. p1 = pool @ new1 \<and>
        (\<forall>a \<in> set new1. \<exists>sel w i r. build_activity con sel w i = Inr (a, r))
        \<and> length i4 \<le> length i2"
    proof (cases use)
      case True
      with added(3) show ?thesis by simp
    next
      case False
      with added(3) obtain i3 where c2: "confirm con i2 = Some (True, i3)"
        and inner: "add_activities con acts pool False i3 = Inr (p1, i4)" by auto
      have "length i3 < length inp" using confirm_shorter[OF c2] l2 by simp
      from less.hyps[OF this inner] add_activities_shorter[OF inner] confirm_shorter[OF c2]
      show ?thesis by auto
    qed
    then obtain new1 where p1: "p1 = pool @ new1"
      and new1: "\<forall>a \<in> set new1. \<exists>sel w i r. build_activity con sel w i = Inr (a, r)"
      and l4: "length i4 \<le> length i2" by blast
    have l6: "length i6 < length inp"
      using l2 l4 build_activity_shorter[OF added(4)] confirm_shorter[OF added(5)] by simp
    have a: "\<exists>sel w i r. build_activity con sel w i = Inr (a, r)"
      using added(4) by blast
    show ?thesis
    proof (cases another)
      case False
      with added(6) have "pool' = pool @ (new1 @ [a])" by (simp add: p1)
      moreover have "\<forall>b \<in> set (new1 @ [a]). \<exists>sel w i r. build_activity con sel w i = Inr (b, r)"
        using new1 a by auto
      ultimately show ?thesis by blast
    next
      case True
      with added(6) have last: "add_activities con acts (p1 @ [a]) False i6 = Inr (pool', rest)"
        by simp
      from less.hyps[OF l6 last] obtain new2 where
        "pool' = (p1 @ [a]) @ new2"
        and new2: "\<forall>b \<in> set new2. \<exists>sel w i r. build_activity con sel w i = Inr (b, r)"
        by blast
      then have "pool' = pool @ (new1 @ [a] @ new2)" by (simp add: p1)
      moreover have "\<forall>b \<in> set (new1 @ [a] @ new2). \<exists>sel w i r. build_activity con sel w i = Inr (b, r)"
        using new1 a new2 by auto
      ultimately show ?thesis by blast
    qed
  qed
qed


section \<open>The claims\<close>

text \<open>
  Claim C1: the number of entries appended to the pool equals the number of times the
  operator confirms an operation; declining an operation and agreeing to pick another
  adds no entry for the declined one.

  The code does not behave so.  After the call of line 254 returns, control falls
  through to line 256 and the declined operation is built and appended.  Below the
  operator picks entry 1, declines it, agrees to pick another, escapes with 0 and
  declines to go on: no operation was confirmed, and the pool holds one entry.
\<close>
theorem decline_then_retry_adds_declined:
  "add_activities plain [(''probe-one'', probe_one)] [] False [''1'', ''n'', ''y'', ''0'', ''n'']
     = Inr ([built probe_one None []], [])"
  by (simp add: run_simps console_simps)

text \<open>
  Claim C2: every activity produced by a run that was started with
  \<^verbatim>\<open>with_tolerance\<close> true carries a tolerance, also those added on later rounds.

  The code does not behave so.  The calls of lines 254 and 300 do not pass
  \<^verbatim>\<open>with_tolerance\<close> on, so only the first round asks for a tolerance.  Below the
  operator adds the same probe twice in a run started with \<^verbatim>\<open>with_tolerance=True\<close>:
  the second entry has no tolerance.
\<close>
theorem later_probe_has_no_tolerance:
  "add_activities plain [(''probe-one'', probe_one)] [] True
       [''1'', ''y'', ''below 5'', ''y'', ''1'', ''y'', ''n'']
     = Inr ([built probe_one (Some ''below 5'') [], built probe_one None []], [])"
  by (simp add: run_simps console_simps)

text \<open>
  A positive index beyond the list is not asked again: line 243 raises, and the lines the
  operator would have typed next are never read.
\<close>
theorem out_of_range_selection_is_fatal:
  "add_activities plain [(''probe-one'', probe_one)] [] False [''2'', ''1'', ''y'', ''n'']
     = Inl IndexError"
  by (simp add: run_simps console_simps)

text \<open>
  Claim C3, as the code has it: a menu answer that is empty or no integer is asked again,
  and the run goes on as if the line had not been typed; a positive index greater than
  the number of candidates ends the run with \<open>IndexError\<close>.
\<close>
theorem invalid_selection:
  "(l = [] \<or> read_int con l = None \<longrightarrow>
      add_activities con acts pool wt (l # inp) = add_activities con acts pool wt inp) \<and>
   (l' \<noteq> [] \<and> read_int con l' = Some n \<and> int (length acts) < n \<longrightarrow>
      add_activities con acts pool wt (l' # inp) = Inl IndexError)"
proof (intro conjI impI)
  assume "l = [] \<or> read_int con l = None"
  then have "select_activity con acts (l # inp) = select_activity con acts inp"
    by (auto simp: select_activity_def)
  then show "add_activities con acts pool wt (l # inp) = add_activities con acts pool wt inp"
    by (simp add: add_activities.simps[of con acts pool wt "l # inp"]
        add_activities.simps[of con acts pool wt inp])
next
  assume "l' \<noteq> [] \<and> read_int con l' = Some n \<and> int (length acts) < n"
  then have "select_activity con acts (l' # inp) = Inl IndexError"
    by (auto simp: select_activity_def py_index_def)
  then show "add_activities con acts pool wt (l' # inp) = Inl IndexError"
    by (simp add: add_activities.simps[of con acts pool wt "l' # inp"])
qed

theorem invalid_selection_witness:
  "read_int plain ''one'' = None \<and>
   add_activities plain [(''probe-one'', probe_one)] [] False [''one'', ''0'']
     = add_activities plain [(''probe-one'', probe_one)] [] False [''0''] \<and>
   ''2'' \<noteq> [] \<and> read_int plain ''2'' = Some 2 \<and>
   int (length [(''probe-one'', probe_one)]) < 2 \<and>
   add_activities plain [(''probe-one'', probe_one)] [] False [''2'', ''0''] = Inl IndexError"
proof -
  have h1: "read_int plain ''one'' = None" by (simp add: console_simps)
  have h2: "''2'' \<noteq> [] \<and> read_int plain ''2'' = Some 2 \<and>
      int (length [(''probe-one'', probe_one)]) < 2" by (simp add: console_simps)
  from h1 h2
    invalid_selection[of "''one''" plain "[(''probe-one'', probe_one)]" "[]" False "[''0'']"
      "''2''" 2]
  show ?thesis by simp
qed

text \<open>
  Claim C4: for an argument that is asked for (its name is not reserved) and that
  declares a default \<open>d\<close>, the empty line stores \<open>d\<close> under the argument's name: the
  value \<^verbatim>\<open>None\<close> where \<open>d\<close> is \<^verbatim>\<open>None\<close> (and not the empty string that was shown),
  the literal default where \<open>d\<close> is any other value.
\<close>
theorem empty_input_stores_default:
  assumes "arg_name arg \<noteq> ''secrets''" and "arg_name arg \<noteq> ''configuration''"
    and "arg_default arg = Some d"
  shows "ask_argument con arg ([] # inp) = Some (d, inp) \<and>
    ask_arguments con (arg # others) args ([] # inp)
      = ask_arguments con others (AList.update (arg_name arg) d args) inp"
proof -
  have "ask_argument con arg ([] # inp) = Some (d, inp)"
    using assms(3) by (simp add: ask_argument_def prompt_value_def)
  with assms(1,2) show ?thesis by simp
qed

theorem empty_input_stores_default_witness:
  "ask_arguments plain
     [\<lparr>arg_name = ''label'', arg_default = Some PNone\<rparr>,
      \<lparr>arg_name = ''timeout'', arg_default = Some (PInt 30)\<rparr>] [] ['''', '''']
   = Inr ([(''label'', PNone), (''timeout'', PInt 30)], [])"
proof -
  have "ask_arguments plain
     [\<lparr>arg_name = ''label'', arg_default = Some PNone\<rparr>,
      \<lparr>arg_name = ''timeout'', arg_default = Some (PInt 30)\<rparr>] [] ['''', '''']
    = ask_arguments plain [\<lparr>arg_name = ''timeout'', arg_default = Some (PInt 30)\<rparr>]
        (AList.update ''label'' PNone []) ['''']"
    using empty_input_stores_default[of "\<lparr>arg_name = ''label'', arg_default = Some PNone\<rparr>"
        PNone plain "['''']" "[\<lparr>arg_name = ''timeout'', arg_default = Some (PInt 30)\<rparr>]" "[]"]
    by simp
  also have "\<dots> = ask_arguments plain [] (AList.update ''timeout'' (PInt 30)
        (AList.update ''label'' PNone [])) []"
    using empty_input_stores_default[of "\<lparr>arg_name = ''timeout'', arg_default = Some (PInt 30)\<rparr>"
        "PInt 30" plain "[]" "[]" "AList.update ''label'' PNone []"]
    by simp
  finally show ?thesis by simp
qed

text \<open>
  The method is offered every activity of the discovery: with a probe and an action
  discovered, its menu holds both, and differs from the list of the actions.
\<close>
theorem method_candidates_mix_kinds:
  "map (\<lambda>c. act_type (snd c)) (method_candidates \<lparr>d_activities = [probe_one, stop_node]\<rparr>)
     = [''probe'', ''action''] \<and>
   method_candidates \<lparr>d_activities = [probe_one, stop_node]\<rparr>
     \<noteq> map (\<lambda>a. (act_name a, a))
         (filter (\<lambda>a. act_type a = ''action'') [probe_one, stop_node])"
  by (simp add: method_candidates_def probe_one_def stop_node_def)

text \<open>
  Claim C5, as the code has it: the steady-state hypothesis is offered the activities of
  type \<^verbatim>\<open>"probe"\<close>, the method is offered all activities whatever their type; both in
  the order of the discovery, each paired with its name.
\<close>
theorem candidates_of_sections:
  "probe_candidates d
     = map (\<lambda>a. (act_name a, a)) (filter (\<lambda>a. act_type a = ''probe'') (d_activities d)) \<and>
   method_candidates d = map (\<lambda>a. (act_name a, a)) (d_activities d)"
  by (simp add: probe_candidates_def method_candidates_def collect_probes_filter)

text \<open>
  Claim C6: without a discovery the experiment has no method entries and no hypothesis
  observations.  (The key \<^verbatim>\<open>"method"\<close> is not set at all.)
\<close>
theorem no_discovery_no_activities:
  assumes "init con None inp = Inr (e, rest)"
  shows "e_method e = None \<and> method_entries e = [] \<and> observations e = []"
  using assms
  by (auto simp: init_def method_entries_def observations_def
      split: option.splits sum.splits if_splits prod.splits)

theorem no_discovery_no_activities_witness:
  "init plain None [''outage'', ''y'', ''service is up'']
     = Inr (\<lparr>e_version = ''1.0.0'', e_title = ''outage'', e_description = ''N/A'',
              e_tags = [], e_rollbacks = [],
              steady_state_hypothesis = Some \<lparr>h_title = ''service is up'', h_probes = None\<rparr>,
              e_method = None\<rparr>, []) \<and>
   method_entries \<lparr>e_version = ''1.0.0'', e_title = ''outage'', e_description = ''N/A'',
              e_tags = [], e_rollbacks = [],
              steady_state_hypothesis = Some \<lparr>h_title = ''service is up'', h_probes = None\<rparr>,
              e_method = None\<rparr> = [] \<and>
   observations \<lparr>e_version = ''1.0.0'', e_title = ''outage'', e_description = ''N/A'',
              e_tags = [], e_rollbacks = [],
              steady_state_hypothesis = Some \<lparr>h_title = ''service is up'', h_probes = None\<rparr>,
              e_method = None\<rparr> = []"
proof -
  have run: "init plain None [''outage'', ''y'', ''service is up'']
     = Inr (\<lparr>e_version = ''1.0.0'', e_title = ''outage'', e_description = ''N/A'',
              e_tags = [], e_rollbacks = [],
              steady_state_hypothesis = Some \<lparr>h_title = ''service is up'', h_probes = None\<rparr>,
              e_method = None\<rparr>, [])"
    by (simp add: init_def console_simps)
  from no_discovery_no_activities[OF run] run show ?thesis by simp
qed

text \<open>
  Claim C7: a run keeps the entries the pool had and appends to them, and no appended
  activity has an argument named \<^verbatim>\<open>secrets\<close> or \<^verbatim>\<open>configuration\<close>, whatever the
  discovery declares.
\<close>
theorem reserved_names_never_stored:
  assumes "add_activities con acts pool wt inp = Inr (pool', rest)"
  shows "take (length pool) pool' = pool \<and>
    (\<forall>a \<in> set (drop (length pool) pool').
       ''secrets'' \<notin> argument_names a \<and> ''configuration'' \<notin> argument_names a)"
proof -
  from add_activities_appends[OF assms] obtain new where
    "pool' = pool @ new"
    and "\<forall>a \<in> set new. \<exists>sel w i r. build_activity con sel w i = Inr (a, r)"
    by blast
  then show ?thesis by (auto dest: build_activity_names)
qed

theorem reserved_names_never_stored_witness:
  "add_activities plain [(''stop-node'', stop_node)] [] False [''1'', ''y'', '''', '''', ''n'']
     = Inr ([built stop_node None [(''timeout'', PInt 30), (''label'', PNone)]], []) \<and>
   ''secrets'' \<notin> argument_names (built stop_node None [(''timeout'', PInt 30), (''label'', PNone)]) \<and>
   ''configuration'' \<notin> argument_names (built stop_node None [(''timeout'', PInt 30), (''label'', PNone)])"
proof -
  have run: "add_activities plain [(''stop-node'', stop_node)] [] False
       [''1'', ''y'', '''', '''', ''n'']
     = Inr ([built stop_node None [(''timeout'', PInt 30), (''label'', PNone)]], [])"
    by (simp add: run_simps console_simps)
  from reserved_names_never_stored[OF run] run show ?thesis by simp
qed

text \<open>
  An empty line at the menu is no selection: the prompt asks again, the run goes on, and
  the answers that follow add an entry to the pool.
\<close>
theorem empty_selection_is_asked_again:
  "add_activities plain [(''probe-one'', probe_one)] [] False ['''', ''1'', ''y'', ''n'']
     = Inr ([built probe_one None []], [])"
  by (simp add: run_simps console_simps)

text \<open>
  Claim C8, as the code has it: when the first menu prompt of a run yields 0, the run
  returns at once with the pool as it was passed in.
\<close>
theorem escape_leaves_pool:
  assumes "prompt_int con inp = Some (0, rest)"
  shows "add_activities con acts pool wt inp = Inr (pool, rest)"
  using assms by (simp add: add_activities.simps[of con acts pool wt inp] select_activity_def)

theorem escape_leaves_pool_witness:
  "prompt_int plain [''0'', ''1''] = Some (0, [''1'']) \<and>
   add_activities plain [(''probe-one'', probe_one)] [built stop_node None []] True [''0'', ''1'']
     = Inr ([built stop_node None []], [''1''])"
proof -
  have h: "prompt_int plain [''0'', ''1''] = Some (0, [''1''])" by (simp add: console_simps)
  from escape_leaves_pool[OF h] h show ?thesis by simp
qed

text \<open>
  Claim C9: for a discovery with no activities, the method and the observations of the
  experiment that \<^verbatim>\<open>init\<close> returns are both empty.
\<close>
theorem empty_discovery_empty_sequences:
  assumes "d_activities d = []" and "init con (Some d) inp = Inr (e, rest)"
  shows "e_method e = Some [] \<and> method_entries e = [] \<and> observations e = []"
proof -
  have none: "probe_candidates d = []" "method_candidates d = []"
    using assms(1) by (simp_all add: probe_candidates_def method_candidates_def)
  from assms(2) show ?thesis
    by (auto simp: init_def none method_entries_def observations_def
        split: option.splits sum.splits if_splits prod.splits
        dest!: add_activities_empty)
qed

theorem empty_discovery_empty_sequences_witness:
  "d_activities \<lparr>d_activities = []\<rparr> = [] \<and>
   init plain (Some \<lparr>d_activities = []\<rparr>) [''outage'', ''y'', ''service is up'', ''0'', ''0'']
     = Inr (\<lparr>e_version = ''1.0.0'', e_title = ''outage'', e_description = ''N/A'',
              e_tags = [], e_rollbacks = [],
              steady_state_hypothesis = Some \<lparr>h_title = ''service is up'', h_probes = Some []\<rparr>,
              e_method = Some []\<rparr>, []) \<and>
   method_entries \<lparr>e_version = ''1.0.0'', e_title = ''outage'', e_description = ''N/A'',
              e_tags = [], e_rollbacks = [],
              steady_state_hypothesis = Some \<lparr>h_title = ''service is up'', h_probes = Some []\<rparr>,
              e_method = Some []\<rparr> = [] \<and>
   observations \<lparr>e_version = ''1.0.0'', e_title = ''outage'', e_description = ''N/A'',
              e_tags = [], e_rollbacks = [],
              steady_state_hypothesis = Some \<lparr>h_title = ''service is up'', h_probes = Some []\<rparr>,
              e_method = Some []\<rparr> = []"
proof -
  have h: "d_activities \<lparr>d_activities = []\<rparr> = []" by simp
  have run: "init plain (Some \<lparr>d_activities = []\<rparr>)
       [''outage'', ''y'', ''service is up'', ''0'', ''0'']
     = Inr (\<lparr>e_version = ''1.0.0'', e_title = ''outage'', e_description = ''N/A'',
              e_tags = [], e_rollbacks = [],
              steady_state_hypothesis = Some \<lparr>h_title = ''service is up'', h_probes = Some []\<rparr>,
              e_method = Some []\<rparr>, [])"
    by (simp add: init_def probe_candidates_def method_candidates_def run_simps console_simps)
  from empty_discovery_empty_sequences[OF h run] h run show ?thesis by simp
qed

text \<open>
  Claim C10: a negative answer \<open>n\<close> with \<open>0 \<le> len + n - 1\<close> neither stops the run nor
  raises: the candidate at position \<open>len + n - 1\<close> is selected, and the run goes on
  exactly as after the answer \<open>len + n\<close>.
\<close>
theorem negative_selection_counts_from_end:
  assumes "l \<noteq> []" and "read_int con l = Some n" and "n < 0"
    and "0 \<le> int (length acts) + n - 1"
  shows "select_activity con acts (l # inp)
      = Inr (Some (snd (acts ! nat (int (length acts) + n - 1))), inp) \<and>
    (\<forall>l'. l' \<noteq> [] \<and> read_int con l' = Some (int (length acts) + n) \<longrightarrow>
       add_activities con acts pool wt (l # inp) = add_activities con acts pool wt (l' # inp))"
proof -
  have sel: "select_activity con acts (l # inp)
      = Inr (Some (snd (acts ! nat (int (length acts) + n - 1))), inp)"
    using assms by (simp add: select_activity_def py_index_def Let_def algebra_simps)
  have "select_activity con acts (l' # inp) = select_activity con acts (l # inp)"
    if "l' \<noteq> []" "read_int con l' = Some (int (length acts) + n)" for l'
    using that assms sel by (simp add: select_activity_def py_index_def Let_def algebra_simps)
  then have "add_activities con acts pool wt (l # inp) = add_activities con acts pool wt (l' # inp)"
    if "l' \<noteq> [] \<and> read_int con l' = Some (int (length acts) + n)" for l'
    using that
    by (simp add: add_activities.simps[of con acts pool wt "l # inp"]
        add_activities.simps[of con acts pool wt "l' # inp"])
  with sel show ?thesis by blast
qed


theorem negative_selection_counts_from_end_witness:
  "''-1'' \<noteq> [] \<and> read_int plain ''-1'' = Some (- 1) \<and> (- 1 :: int) < 0 \<and>
   0 \<le> int (length [(''probe-one'', probe_one), (''stop-node'', stop_node)]) + (- 1) - 1 \<and>
   select_activity plain [(''probe-one'', probe_one), (''stop-node'', stop_node)] [''-1'', ''n'', ''n'']
     = Inr (Some probe_one, [''n'', ''n'']) \<and>
   ''1'' \<noteq> [] \<and> read_int plain ''1'' = Some 1 \<and>
   add_activities plain [(''probe-one'', probe_one), (''stop-node'', stop_node)] [] False
       [''-1'', ''n'', ''n'']
     = add_activities plain [(''probe-one'', probe_one), (''stop-node'', stop_node)] [] False
       [''1'', ''n'', ''n'']"
proof -
  have h: "''-1'' \<noteq> []" "read_int plain ''-1'' = Some (- 1)" "(- 1 :: int) < 0"
    "0 \<le> int (length [(''probe-one'', probe_one), (''stop-node'', stop_node)]) + (- 1) - 1"
    by (simp_all add: console_simps)
  have h': "''1'' \<noteq> [] \<and> read_int plain ''1''
      = Some (int (length [(''probe-one'', probe_one), (''stop-node'', stop_node)]) + (- 1))"
    by (simp add: console_simps)
  from negative_selection_counts_from_end[OF h, of "[''n'', ''n'']" "[]" False] h h'
  show ?thesis by simp
qed

end
